theory Spec2Isabelle
  imports Complex_Main "HOL-Library.Sublist"
begin

section \<open>Values of the Python runtime\<close>

text \<open>
  A Python float is an IEEE double: a finite value (a real number), one of the two
  infinities, or not-a-number. The module never does arithmetic on floats; it compares
  them with an integer literal and formats them with \<^verbatim>\<open>%s\<close>.
\<close>

datatype pyfloat = Finite real | PosInf | NegInf | NaN

text \<open>Python's \<^verbatim>\<open>x >= n\<close> for a float \<open>x\<close> and an int \<open>n\<close>: exact, and false on NaN.\<close>

fun float_ge_int :: "pyfloat \<Rightarrow> int \<Rightarrow> bool" where
  "float_ge_int (Finite r) n = (of_int n \<le> r)"
| "float_ge_int PosInf n = True"
| "float_ge_int NegInf n = False"
| "float_ge_int NaN n = False"

text \<open>\<^verbatim>\<open>"%s" % n\<close> for an int \<open>n\<close>: its decimal digits, with a minus sign when negative.\<close>

definition digit_char :: "nat \<Rightarrow> char" where
  "digit_char d = ''0123456789'' ! d"

function str_nat :: "nat \<Rightarrow> string" where
  "str_nat n = (if n < 10 then [digit_char n] else str_nat (n div 10) @ [digit_char (n mod 10)])"
  by pat_completeness auto
termination
  by (relation "measure id") auto

declare str_nat.simps [simp del]

definition str_int :: "int \<Rightarrow> string" where
  "str_int i = (if i < 0 then CHR ''-'' # str_nat (nat (- i)) else str_nat (nat i))"

section \<open>The rdkit collaborator and the exceptions of the module\<close>

text \<open>
  The module raises two exception classes of its own: \<^verbatim>\<open>SmilesError\<close> (line 19) and the
  builtin \<^verbatim>\<open>Exception\<close> (line 51), each with a message. An exception raised inside rdkit
  is carried as \<open>Raised x\<close>; the type \<open>'x\<close> stands for the classes below
  \<^verbatim>\<open>Exception\<close> that library code raises.
\<close>

datatype 'x exn = SmilesError string | Exception string | Raised 'x

text \<open>
  The value bound to \<^verbatim>\<open>mol\<close> is \<^verbatim>\<open>None\<close> or a molecule handle of the opaque type
  \<open>'m\<close>. rdkit is not part of the repository: its five entry points are parameters, each
  returning a value (\<open>Inr\<close>) or raising (\<open>Inl\<close>). \<open>str_float\<close> is the runtime's
  \<^verbatim>\<open>"%s" % x\<close> for a float \<open>x\<close>.
\<close>

record ('m, 'x) runtime =
  MolFromSmiles :: "string \<Rightarrow> 'x + 'm option"
  MolLogP :: "'m option \<Rightarrow> 'x + pyfloat"
  NumHDonors :: "'m option \<Rightarrow> 'x + int"
  NumHAcceptors :: "'m option \<Rightarrow> 'x + int"
  MolWt :: "'m option \<Rightarrow> 'x + pyfloat"
  str_float :: "pyfloat \<Rightarrow> string"

text \<open>Every call into rdkit is recorded, in order, with its argument.\<close>

datatype 'm event =
    Call_MolFromSmiles string
  | Call_NumHDonors "'m option"
  | Call_NumHAcceptors "'m option"
  | Call_MolWt "'m option"
  | Call_MolLogP "'m option"

text \<open>A run of an operation: the calls it made, and the exception raised or the value returned.\<close>

type_synonym ('m, 'x, 'a) run = "'m event list \<times> ('x exn + 'a)"

text \<open>
  A call outside any \<^verbatim>\<open>try\<close>: an exception of the callee ends the run and reaches the
  caller unchanged; otherwise the run continues with the value.
\<close>

definition invoke :: "'m event \<Rightarrow> 'x + 'a \<Rightarrow> ('a \<Rightarrow> ('m, 'x, 'b) run) \<Rightarrow> ('m, 'x, 'b) run" where
  "invoke ev r k =
     (case r of
        Inl x \<Rightarrow> ([ev], Inl (Raised x))
      | Inr v \<Rightarrow> (case k v of (t, res) \<Rightarrow> (ev # t, res)))"

text \<open>
  A call inside \<^verbatim>\<open>try: ... except Exception as e: raise h\<close>: whatever the callee
  raises, the caller sees \<open>h\<close>.
\<close>

definition invoke_except ::
    "'m event \<Rightarrow> 'x + 'a \<Rightarrow> 'x exn \<Rightarrow> ('a \<Rightarrow> ('m, 'x, 'b) run) \<Rightarrow> ('m, 'x, 'b) run" where
  "invoke_except ev r h k =
     (case r of
        Inl x \<Rightarrow> ([ev], Inl h)
      | Inr v \<Rightarrow> (case k v of (t, res) \<Rightarrow> (ev # t, res)))"

section \<open>The three operations of chem\_analysis.py\<close>

text \<open>
  \<^verbatim>\<open>log_partition_coefficient\<close> (lines 23-33). Only the parse stands inside the
  \<^verbatim>\<open>try\<close>; whatever it returns, \<^verbatim>\<open>None\<close> included, is passed on to
  \<^verbatim>\<open>Crippen.MolLogP\<close>.
\<close>

definition log_partition_coefficient :: "('m, 'x) runtime \<Rightarrow> string \<Rightarrow> ('m, 'x, pyfloat) run" where
  "log_partition_coefficient rt smiles =
     invoke_except (Call_MolFromSmiles smiles) (MolFromSmiles rt smiles)
       (SmilesError (smiles @ '' returns a None molecule'')) (\<lambda>mol.
     invoke (Call_MolLogP mol) (MolLogP rt mol) (\<lambda>v.
       ([], Inr v)))"

text \<open>
  Lines 58-80 of \<^verbatim>\<open>lipinski_trial\<close>: the four comparisons, each appending one message
  to \<^verbatim>\<open>failed\<close> or to \<^verbatim>\<open>passed\<close>. \<open>sf\<close> formats a float.
\<close>

definition lipinski_rules ::
    "(pyfloat \<Rightarrow> string) \<Rightarrow> int \<Rightarrow> int \<Rightarrow> pyfloat \<Rightarrow> pyfloat \<Rightarrow> string list \<times> string list" where
  "lipinski_rules sf num_hdonors num_hacceptors mol_weight mol_logp =
     (let passed = []; failed = [];
          (passed, failed) =
            (if num_hdonors > 5
             then (passed, failed @ [''Over 5 H-bond donors, found '' @ str_int num_hdonors])
             else (passed @ [''Found '' @ str_int num_hdonors @ '' H-bond donors''], failed));
          (passed, failed) =
            (if num_hacceptors > 10
             then (passed, failed @ [''Over 10 H-bond acceptors, found '' @ str_int num_hacceptors])
             else (passed @ [''Found '' @ str_int num_hacceptors @ '' H-bond acceptors''], failed));
          (passed, failed) =
            (if float_ge_int mol_weight 500
             then (passed, failed @ [''Molecular weight over 500, calculated '' @ sf mol_weight])
             else (passed @ [''Molecular weight: '' @ sf mol_weight], failed));
          (passed, failed) =
            (if float_ge_int mol_logp 5
             then (passed, failed @ [''Log partition coefficient over 5, calculated '' @ sf mol_logp])
             else (passed @ [''Log partition coefficient: '' @ sf mol_logp], failed))
      in (passed, failed))"

text \<open>\<^verbatim>\<open>lipinski_trial\<close> (lines 36-80).\<close>

definition lipinski_trial ::
    "('m, 'x) runtime \<Rightarrow> string \<Rightarrow> ('m, 'x, string list \<times> string list) run" where
  "lipinski_trial rt smiles =
     invoke (Call_MolFromSmiles smiles) (MolFromSmiles rt smiles) (\<lambda>mol.
       if mol = None
       then ([], Inl (Exception (smiles @ '' is not a valid SMILES string'')))
       else
         invoke (Call_NumHDonors mol) (NumHDonors rt mol) (\<lambda>num_hdonors.
         invoke (Call_NumHAcceptors mol) (NumHAcceptors rt mol) (\<lambda>num_hacceptors.
         invoke (Call_MolWt mol) (MolWt rt mol) (\<lambda>mol_weight.
         invoke (Call_MolLogP mol) (MolLogP rt mol) (\<lambda>mol_logp.
           ([], Inr (lipinski_rules (str_float rt)
                       num_hdonors num_hacceptors mol_weight mol_logp)))))))"

text \<open>\<^verbatim>\<open>lipinski_pass\<close> (lines 83-91): a list is true when it is not empty.\<close>

definition lipinski_pass :: "('m, 'x) runtime \<Rightarrow> string \<Rightarrow> ('m, 'x, bool) run" where
  "lipinski_pass rt smiles =
     (case lipinski_trial rt smiles of
        (t, Inl e) \<Rightarrow> (t, Inl e)
      | (t, Inr (passed, failed)) \<Rightarrow> (t, Inr (if failed \<noteq> [] then False else True)))"

section \<open>A small stand-in for rdkit\<close>

text \<open>
  A molecule is represented by the string it was parsed from and its four descriptors
  (donors, acceptors, weight, logP); the parser knows the strings of a table and returns
  \<^verbatim>\<open>None\<close> on every other one, and a descriptor called on \<^verbatim>\<open>None\<close> raises, as a
  Boost.Python function does on an argument of the wrong type. Floats are formatted from a
  table as well.
\<close>

type_synonym descriptors = "int \<times> int \<times> pyfloat \<times> pyfloat"

type_synonym molecule = "string \<times> descriptors"

definition table_rdkit ::
    "(string \<times> descriptors) list \<Rightarrow> (pyfloat \<times> string) list \<Rightarrow> (molecule, string) runtime" where
  "table_rdkit mols floats =
     \<lparr> MolFromSmiles = (\<lambda>s. Inr (map_option (Pair s) (map_of mols s))),
       MolLogP = (\<lambda>mol. case mol of None \<Rightarrow> Inl ''ArgumentError'' | Some (s, d, a, w, l) \<Rightarrow> Inr l),
       NumHDonors = (\<lambda>mol. case mol of None \<Rightarrow> Inl ''ArgumentError'' | Some (s, d, a, w, l) \<Rightarrow> Inr d),
       NumHAcceptors = (\<lambda>mol. case mol of None \<Rightarrow> Inl ''ArgumentError'' | Some (s, d, a, w, l) \<Rightarrow> Inr a),
       MolWt = (\<lambda>mol. case mol of None \<Rightarrow> Inl ''ArgumentError'' | Some (s, d, a, w, l) \<Rightarrow> Inr w),
       str_float = (\<lambda>x. case map_of floats x of None \<Rightarrow> ''nan'' | Some s \<Rightarrow> s) \<rparr>"

definition ethanol :: descriptors where
  "ethanol = (1, 1, Finite 46.069, Finite (-0.0014))"

text \<open>A molecule that sits on all four thresholds, and a heavy peptide that breaks three rules.\<close>

definition on_thresholds :: descriptors where
  "on_thresholds = (5, 10, Finite 500, Finite 5)"

definition peptide :: descriptors where
  "peptide = (6, 12, Finite 1202.635, Finite 3.269)"

definition demo_floats :: "(pyfloat \<times> string) list" where
  "demo_floats =
     [(Finite 46.069, ''46.069''), (Finite (-0.0014), ''-0.0014''),
      (Finite 500, ''500.0''), (Finite 5, ''5.0''),
      (Finite 1202.635, ''1202.635''), (Finite 3.269, ''3.269'')]"

definition demo_rdkit :: "(molecule, string) runtime" where
  "demo_rdkit =
     table_rdkit
       [(''CCO'', ethanol), (''OCC'', ethanol), (''on_thresholds'', on_thresholds),
        (''peptide'', peptide)]
       demo_floats"

text \<open>A library that knows ethanol under one spelling only.\<close>

definition small_rdkit :: "(molecule, string) runtime" where
  "small_rdkit = table_rdkit [(''CCO'', ethanol)] demo_floats"

text \<open>The same library with a parser that raises instead of returning \<^verbatim>\<open>None\<close>.\<close>

definition raising_rdkit :: "(molecule, string) runtime" where
  "raising_rdkit = demo_rdkit \<lparr> MolFromSmiles := (\<lambda>s. Inl ''ArgumentError'') \<rparr>"

section \<open>Error kinds\<close>

text \<open>The kind of an error is the class of the exception raised.\<close>

datatype 'x exn_class = SmilesError_class | Exception_class | Library_class 'x

fun class_of :: "'x exn \<Rightarrow> 'x exn_class" where
  "class_of (SmilesError msg) = SmilesError_class"
| "class_of (Exception msg) = Exception_class"
| "class_of (Raised x) = Library_class x"

section \<open>The result as a sequence of rule outcomes\<close>

text \<open>
  The specification describes the result of Rule Evaluation as one ordered sequence of
  four outcomes (donors, acceptors, weight, logP), each passed or failed with a message.
  This is that view, written from the specification; the code returns two lists.
\<close>

datatype outcome = Passed string | Failed string

fun message :: "outcome \<Rightarrow> string" where
  "message (Passed msg) = msg"
| "message (Failed msg) = msg"

definition spec_rule_outcomes ::
    "(pyfloat \<Rightarrow> string) \<Rightarrow> int \<Rightarrow> int \<Rightarrow> pyfloat \<Rightarrow> pyfloat \<Rightarrow> outcome list" where
  "spec_rule_outcomes sf d a w l =
     [if d > 5 then Failed (''Over 5 H-bond donors, found '' @ str_int d)
      else Passed (''Found '' @ str_int d @ '' H-bond donors''),
      if a > 10 then Failed (''Over 10 H-bond acceptors, found '' @ str_int a)
      else Passed (''Found '' @ str_int a @ '' H-bond acceptors''),
      if float_ge_int w 500 then Failed (''Molecular weight over 500, calculated '' @ sf w)
      else Passed (''Molecular weight: '' @ sf w),
      if float_ge_int l 5 then Failed (''Log partition coefficient over 5, calculated '' @ sf l)
      else Passed (''Log partition coefficient: '' @ sf l)]"

fun passed_of :: "outcome list \<Rightarrow> string list" where
  "passed_of [] = []"
| "passed_of (Passed msg # os) = msg # passed_of os"
| "passed_of (Failed msg # os) = passed_of os"

fun failed_of :: "outcome list \<Rightarrow> string list" where
  "failed_of [] = []"
| "failed_of (Passed msg # os) = failed_of os"
| "failed_of (Failed msg # os) = msg # failed_of os"

text \<open>The strings parsed during a run, and the molecules handed to the descriptors.\<close>

fun parses :: "'m event list \<Rightarrow> string list" where
  "parses [] = []"
| "parses (Call_MolFromSmiles s # t) = s # parses t"
| "parses (ev # t) = parses t"

fun described :: "'m event list \<Rightarrow> 'm option list" where
  "described [] = []"
| "described (Call_MolFromSmiles s # t) = described t"
| "described (Call_NumHDonors mol # t) = mol # described t"
| "described (Call_NumHAcceptors mol # t) = mol # described t"
| "described (Call_MolWt mol # t) = mol # described t"
| "described (Call_MolLogP mol # t) = mol # described t"

section \<open>Running the operations\<close>

lemma invoke_Inl [simp]: "invoke ev (Inl x) k = ([ev], Inl (Raised x))"
  by (simp add: invoke_def)

lemma invoke_Inr [simp]: "invoke ev (Inr v) k = (ev # fst (k v), snd (k v))"
  by (simp add: invoke_def split: prod.splits)

lemma invoke_except_Inl [simp]: "invoke_except ev (Inl x) h k = ([ev], Inl h)"
  by (simp add: invoke_except_def)

lemma invoke_except_Inr [simp]: "invoke_except ev (Inr v) h k = (ev # fst (k v), snd (k v))"
  by (simp add: invoke_except_def split: prod.splits)

lemma log_partition_coefficient_raises:
  "MolFromSmiles rt smiles = Inl x \<Longrightarrow>
     log_partition_coefficient rt smiles =
       ([Call_MolFromSmiles smiles], Inl (SmilesError (smiles @ '' returns a None molecule'')))"
  by (simp add: log_partition_coefficient_def)

lemma log_partition_coefficient_returns:
  "MolFromSmiles rt smiles = Inr mol \<Longrightarrow>
     log_partition_coefficient rt smiles =
       ([Call_MolFromSmiles smiles, Call_MolLogP mol], map_sum Raised id (MolLogP rt mol))"
  by (cases "MolLogP rt mol") (simp_all add: log_partition_coefficient_def)

lemma lipinski_trial_raises:
  "MolFromSmiles rt smiles = Inl x \<Longrightarrow>
     lipinski_trial rt smiles = ([Call_MolFromSmiles smiles], Inl (Raised x))"
  by (simp add: lipinski_trial_def)

lemma lipinski_trial_None:
  "MolFromSmiles rt smiles = Inr None \<Longrightarrow>
     lipinski_trial rt smiles =
       ([Call_MolFromSmiles smiles], Inl (Exception (smiles @ '' is not a valid SMILES string'')))"
  by (simp add: lipinski_trial_def)

lemma lipinski_trial_valid:
  assumes "MolFromSmiles rt smiles = Inr (Some m)"
    and "NumHDonors rt (Some m) = Inr d"
    and "NumHAcceptors rt (Some m) = Inr a"
    and "MolWt rt (Some m) = Inr w"
    and "MolLogP rt (Some m) = Inr l"
  shows "lipinski_trial rt smiles =
           ([Call_MolFromSmiles smiles, Call_NumHDonors (Some m), Call_NumHAcceptors (Some m),
             Call_MolWt (Some m), Call_MolLogP (Some m)],
            Inr (lipinski_rules (str_float rt) d a w l))"
  using assms by (simp add: lipinski_trial_def)

text \<open>A result of \<^verbatim>\<open>lipinski_trial\<close> means that the parse and all four descriptors returned.\<close>

lemma lipinski_trial_Inr_cases:
  assumes "snd (lipinski_trial rt smiles) = Inr res"
  obtains m d a w l where
    "MolFromSmiles rt smiles = Inr (Some m)"
    "NumHDonors rt (Some m) = Inr d"
    "NumHAcceptors rt (Some m) = Inr a"
    "MolWt rt (Some m) = Inr w"
    "MolLogP rt (Some m) = Inr l"
    "res = lipinski_rules (str_float rt) d a w l"
proof (cases "MolFromSmiles rt smiles")
  case (Inl x)
  with assms show ?thesis by (simp add: lipinski_trial_raises)
next
  case (Inr mol)
  show ?thesis
  proof (cases mol)
    case None
    with Inr assms show ?thesis by (simp add: lipinski_trial_None)
  next
    case (Some m)
    note p = Inr [unfolded Some]
    from assms p obtain d where d: "NumHDonors rt (Some m) = Inr d"
      by (cases "NumHDonors rt (Some m)") (simp_all add: lipinski_trial_def)
    from assms p d obtain a where a: "NumHAcceptors rt (Some m) = Inr a"
      by (cases "NumHAcceptors rt (Some m)") (simp_all add: lipinski_trial_def)
    from assms p d a obtain w where w: "MolWt rt (Some m) = Inr w"
      by (cases "MolWt rt (Some m)") (simp_all add: lipinski_trial_def)
    from assms p d a w obtain l where l: "MolLogP rt (Some m) = Inr l"
      by (cases "MolLogP rt (Some m)") (simp_all add: lipinski_trial_def)
    from assms have "res = lipinski_rules (str_float rt) d a w l"
      by (simp add: lipinski_trial_valid [OF p d a w l])
    with p d a w l show ?thesis by (rule that)
  qed
qed

lemma rules_failed:
  "snd (lipinski_rules sf d a w l) =
     (if d > 5 then [''Over 5 H-bond donors, found '' @ str_int d] else []) @
     (if a > 10 then [''Over 10 H-bond acceptors, found '' @ str_int a] else []) @
     (if float_ge_int w 500 then [''Molecular weight over 500, calculated '' @ sf w] else []) @
     (if float_ge_int l 5 then [''Log partition coefficient over 5, calculated '' @ sf l] else [])"
  by (simp add: lipinski_rules_def)

lemma rules_passed:
  "fst (lipinski_rules sf d a w l) =
     (if d > 5 then [] else [''Found '' @ str_int d @ '' H-bond donors'']) @
     (if a > 10 then [] else [''Found '' @ str_int a @ '' H-bond acceptors'']) @
     (if float_ge_int w 500 then [] else [''Molecular weight: '' @ sf w]) @
     (if float_ge_int l 5 then [] else [''Log partition coefficient: '' @ sf l])"
  by (simp add: lipinski_rules_def)

lemma rules_four: "length (fst (lipinski_rules sf d a w l)) + length (snd (lipinski_rules sf d a w l)) = 4"
  by (simp add: rules_failed rules_passed)

lemma donors_acceptors_distinct:
  "''Found '' @ x @ '' H-bond donors'' \<noteq> ''Found '' @ y @ '' H-bond acceptors''"
proof
  assume "''Found '' @ x @ '' H-bond donors'' = ''Found '' @ y @ '' H-bond acceptors''"
  then have "rev (''Found '' @ x @ '' H-bond donors'') = rev (''Found '' @ y @ '' H-bond acceptors'')"
    by (rule arg_cong)
  then show False by simp
qed

text \<open>The stand-in library on its table.\<close>

lemma demo_parse:
  "MolFromSmiles demo_rdkit ''CCO'' = Inr (Some (''CCO'', ethanol))"
  "MolFromSmiles demo_rdkit ''OCC'' = Inr (Some (''OCC'', ethanol))"
  "MolFromSmiles demo_rdkit ''on_thresholds'' = Inr (Some (''on_thresholds'', on_thresholds))"
  "MolFromSmiles demo_rdkit ''peptide'' = Inr (Some (''peptide'', peptide))"
  "MolFromSmiles demo_rdkit ''invalid_smiles_!!!'' = Inr None"
  "MolFromSmiles small_rdkit ''CCO'' = Inr (Some (''CCO'', ethanol))"
  by (simp_all add: demo_rdkit_def small_rdkit_def table_rdkit_def)

lemma demo_descriptors:
  "NumHDonors demo_rdkit (Some (s, d, a, w, l)) = Inr d"
  "NumHAcceptors demo_rdkit (Some (s, d, a, w, l)) = Inr a"
  "MolWt demo_rdkit (Some (s, d, a, w, l)) = Inr w"
  "MolLogP demo_rdkit (Some (s, d, a, w, l)) = Inr l"
  "MolLogP demo_rdkit None = Inl ''ArgumentError''"
  by (simp_all add: demo_rdkit_def table_rdkit_def)

lemma small_descriptors:
  "NumHDonors small_rdkit = NumHDonors demo_rdkit"
  "NumHAcceptors small_rdkit = NumHAcceptors demo_rdkit"
  "MolWt small_rdkit = MolWt demo_rdkit"
  "MolLogP small_rdkit = MolLogP demo_rdkit"
  "str_float small_rdkit = str_float demo_rdkit"
  by (simp_all add: demo_rdkit_def small_rdkit_def table_rdkit_def)

lemma demo_str_float:
  "str_float demo_rdkit (Finite 46.069) = ''46.069''"
  "str_float demo_rdkit (Finite (-0.0014)) = ''-0.0014''"
  "str_float demo_rdkit (Finite 500) = ''500.0''"
  "str_float demo_rdkit (Finite 5) = ''5.0''"
  "str_float demo_rdkit (Finite 1202.635) = ''1202.635''"
  "str_float demo_rdkit (Finite 3.269) = ''3.269''"
  by (simp_all add: demo_rdkit_def table_rdkit_def demo_floats_def)

lemma str_int_digits:
  "str_int 1 = ''1''" "str_int 5 = ''5''" "str_int 6 = ''6''" "str_int 10 = ''10''"
  "str_int 12 = ''12''"
  by (simp_all add: str_int_def str_nat.simps digit_char_def)

text \<open>The calls of a run.\<close>

lemma lipinski_pass_calls: "fst (lipinski_pass rt smiles) = fst (lipinski_trial rt smiles)"
  by (cases "lipinski_trial rt smiles") (auto simp add: lipinski_pass_def split: sum.splits)

lemma log_partition_coefficient_calls:
  "parses (fst (log_partition_coefficient rt smiles)) = [smiles]"
  "set (described (fst (log_partition_coefficient rt smiles)))
     \<subseteq> {mol. MolFromSmiles rt smiles = Inr mol}"
  by (cases "MolFromSmiles rt smiles";
      simp add: log_partition_coefficient_raises log_partition_coefficient_returns)+

lemma lipinski_trial_calls:
  "parses (fst (lipinski_trial rt smiles)) = [smiles]"
  "set (described (fst (lipinski_trial rt smiles)))
     \<subseteq> {mol. MolFromSmiles rt smiles = Inr mol}"
  by (simp_all add: lipinski_trial_def invoke_def split: sum.splits prod.splits)

section \<open>Properties of the operations\<close>

text \<open>
  C1, as stated: on a string that the parser answers with \<^verbatim>\<open>None\<close>, the two operations
  raise one and the same error kind. They do not: \<^verbatim>\<open>lipinski_trial\<close> raises the builtin
  \<^verbatim>\<open>Exception\<close>, and \<^verbatim>\<open>log_partition_coefficient\<close> hands \<^verbatim>\<open>None\<close> to the
  library, whose exception reaches the caller.
\<close>

theorem invalid_smiles_kinds_differ:
  "MolFromSmiles demo_rdkit ''invalid_smiles_!!!'' = Inr None
   \<and> snd (log_partition_coefficient demo_rdkit ''invalid_smiles_!!!'')
       = Inl (Raised ''ArgumentError'')
   \<and> snd (lipinski_trial demo_rdkit ''invalid_smiles_!!!'')
       = Inl (Exception ''invalid_smiles_!!! is not a valid SMILES string'')
   \<and> class_of (Raised ''ArgumentError'' :: string exn)
       \<noteq> class_of (Exception ''invalid_smiles_!!! is not a valid SMILES string'')"
  by (simp add: demo_parse demo_descriptors log_partition_coefficient_returns lipinski_trial_None)

text \<open>
  C1, amended. On a string that the parser answers with \<^verbatim>\<open>None\<close>, \<^verbatim>\<open>lipinski_trial\<close>
  raises the builtin \<^verbatim>\<open>Exception\<close> with the message
  \<^verbatim>\<open><s> is not a valid SMILES string\<close>. \<^verbatim>\<open>SmilesError\<close> is another error kind: it is
  what \<^verbatim>\<open>log_partition_coefficient\<close> raises, with the message
  \<^verbatim>\<open><s> returns a None molecule\<close>, when the parse call itself raises.
\<close>

theorem invalid_smiles_error_kinds:
  "(MolFromSmiles rt smiles = Inr None \<longrightarrow>
      snd (lipinski_trial rt smiles)
        = Inl (Exception (smiles @ '' is not a valid SMILES string'')))
   \<and> (MolFromSmiles rt' smiles' = Inl x \<longrightarrow>
      snd (log_partition_coefficient rt' smiles')
        = Inl (SmilesError (smiles' @ '' returns a None molecule'')))
   \<and> class_of (Exception (smiles @ '' is not a valid SMILES string'') :: 'x exn)
       \<noteq> class_of (SmilesError (smiles' @ '' returns a None molecule''))"
  by (simp add: lipinski_trial_None log_partition_coefficient_raises)

theorem invalid_smiles_error_kinds_witness:
  "MolFromSmiles demo_rdkit ''invalid_smiles_!!!'' = Inr None
   \<and> snd (lipinski_trial demo_rdkit ''invalid_smiles_!!!'')
       = Inl (Exception ''invalid_smiles_!!! is not a valid SMILES string'')
   \<and> MolFromSmiles raising_rdkit ''invalid_smiles_!!!'' = Inl ''ArgumentError''
   \<and> snd (log_partition_coefficient raising_rdkit ''invalid_smiles_!!!'')
       = Inl (SmilesError ''invalid_smiles_!!! returns a None molecule'')"
proof -
  have n: "MolFromSmiles demo_rdkit ''invalid_smiles_!!!'' = Inr None"
    by (rule demo_parse)
  have r: "MolFromSmiles raising_rdkit ''invalid_smiles_!!!'' = Inl ''ArgumentError''"
    by (simp add: raising_rdkit_def)
  show ?thesis
    using n r
      invalid_smiles_error_kinds [of demo_rdkit "''invalid_smiles_!!!''" raising_rdkit
        "''invalid_smiles_!!!''" "''ArgumentError''"]
    by simp
qed

text \<open>
  C2. When the parser answers \<^verbatim>\<open>None\<close>, \<^verbatim>\<open>log_partition_coefficient\<close> raises no
  \<^verbatim>\<open>SmilesError\<close>: the \<^verbatim>\<open>except\<close> clause stands around the parse only, so
  \<^verbatim>\<open>None\<close> goes on to \<^verbatim>\<open>Crippen.MolLogP\<close> and the library's own exception is what the
  caller sees.
\<close>

theorem log_partition_coefficient_None_molecule:
  "log_partition_coefficient demo_rdkit ''invalid_smiles_!!!''
     = ([Call_MolFromSmiles ''invalid_smiles_!!!'', Call_MolLogP None],
        Inl (Raised ''ArgumentError''))"
  by (simp add: demo_parse demo_descriptors log_partition_coefficient_returns)

text \<open>
  C3. For a valid SMILES string whose descriptors are \<open>d\<close>, \<open>a\<close>, \<open>w\<close> and \<open>l\<close>: the
  donor message is among the failed ones iff \<open>d > 5\<close> and among the passed ones iff
  \<open>d \<le> 5\<close>; the acceptor rule fails iff \<open>a > 10\<close>; the weight rule fails iff
  \<open>w >= 500\<close>; the logP rule fails iff \<open>l >= 5\<close>.
\<close>

theorem lipinski_trial_thresholds:
  assumes "MolFromSmiles rt smiles = Inr (Some m)"
    and "NumHDonors rt (Some m) = Inr d"
    and "NumHAcceptors rt (Some m) = Inr a"
    and "MolWt rt (Some m) = Inr w"
    and "MolLogP rt (Some m) = Inr l"
  shows "\<exists>passed failed.
           snd (lipinski_trial rt smiles) = Inr (passed, failed)
           \<and> ((''Over 5 H-bond donors, found '' @ str_int d) \<in> set failed) = (d > 5)
           \<and> ((''Found '' @ str_int d @ '' H-bond donors'') \<in> set passed) = (d \<le> 5)
           \<and> ((''Over 10 H-bond acceptors, found '' @ str_int a) \<in> set failed) = (a > 10)
           \<and> ((''Found '' @ str_int a @ '' H-bond acceptors'') \<in> set passed) = (a \<le> 10)
           \<and> ((''Molecular weight over 500, calculated '' @ str_float rt w) \<in> set failed)
               = float_ge_int w 500
           \<and> ((''Molecular weight: '' @ str_float rt w) \<in> set passed)
               = (\<not> float_ge_int w 500)
           \<and> ((''Log partition coefficient over 5, calculated '' @ str_float rt l) \<in> set failed)
               = float_ge_int l 5
           \<and> ((''Log partition coefficient: '' @ str_float rt l) \<in> set passed)
               = (\<not> float_ge_int l 5)"
proof -
  let ?res = "lipinski_rules (str_float rt) d a w l"
  have run: "snd (lipinski_trial rt smiles) = Inr (fst ?res, snd ?res)"
    by (simp add: lipinski_trial_valid [OF assms])
  have f1: "((''Over 5 H-bond donors, found '' @ str_int d) \<in> set (snd ?res)) = (d > 5)"
    by (simp add: rules_failed)
  have p1: "((''Found '' @ str_int d @ '' H-bond donors'') \<in> set (fst ?res)) = (d \<le> 5)"
    using donors_acceptors_distinct [of "str_int d" "str_int a"]
    by (auto simp add: rules_passed)
  have f2: "((''Over 10 H-bond acceptors, found '' @ str_int a) \<in> set (snd ?res)) = (a > 10)"
    by (simp add: rules_failed)
  have p2: "((''Found '' @ str_int a @ '' H-bond acceptors'') \<in> set (fst ?res)) = (a \<le> 10)"
    using donors_acceptors_distinct [of "str_int d" "str_int a"]
    by (auto simp add: rules_passed)
  have f3: "((''Molecular weight over 500, calculated '' @ str_float rt w) \<in> set (snd ?res))
              = float_ge_int w 500"
    by (simp add: rules_failed)
  have p3: "((''Molecular weight: '' @ str_float rt w) \<in> set (fst ?res))
              = (\<not> float_ge_int w 500)"
    by (simp add: rules_passed)
  have f4: "((''Log partition coefficient over 5, calculated '' @ str_float rt l) \<in> set (snd ?res))
              = float_ge_int l 5"
    by (simp add: rules_failed)
  have p4: "((''Log partition coefficient: '' @ str_float rt l) \<in> set (fst ?res))
              = (\<not> float_ge_int l 5)"
    by (simp add: rules_passed)
  from run f1 p1 f2 p2 f3 p3 f4 p4 show ?thesis by blast
qed

text \<open>
  On the thresholds themselves: 5 donors and 10 acceptors pass, a weight of exactly 500 and
  a logP of exactly 5 fail.
\<close>

theorem lipinski_trial_thresholds_witness:
  "MolFromSmiles demo_rdkit ''on_thresholds'' = Inr (Some (''on_thresholds'', on_thresholds))
   \<and> NumHDonors demo_rdkit (Some (''on_thresholds'', on_thresholds)) = Inr 5
   \<and> NumHAcceptors demo_rdkit (Some (''on_thresholds'', on_thresholds)) = Inr 10
   \<and> MolWt demo_rdkit (Some (''on_thresholds'', on_thresholds)) = Inr (Finite 500)
   \<and> MolLogP demo_rdkit (Some (''on_thresholds'', on_thresholds)) = Inr (Finite 5)
   \<and> (\<exists>passed failed.
         snd (lipinski_trial demo_rdkit ''on_thresholds'') = Inr (passed, failed)
         \<and> ''Over 5 H-bond donors, found 5'' \<notin> set failed
         \<and> ''Found 5 H-bond donors'' \<in> set passed
         \<and> ''Over 10 H-bond acceptors, found 10'' \<notin> set failed
         \<and> ''Found 10 H-bond acceptors'' \<in> set passed
         \<and> ''Molecular weight over 500, calculated 500.0'' \<in> set failed
         \<and> ''Molecular weight: 500.0'' \<notin> set passed
         \<and> ''Log partition coefficient over 5, calculated 5.0'' \<in> set failed
         \<and> ''Log partition coefficient: 5.0'' \<notin> set passed)"
proof -
  have p: "MolFromSmiles demo_rdkit ''on_thresholds'' = Inr (Some (''on_thresholds'', on_thresholds))"
    by (rule demo_parse)
  have d: "NumHDonors demo_rdkit (Some (''on_thresholds'', on_thresholds)) = Inr 5"
    and a: "NumHAcceptors demo_rdkit (Some (''on_thresholds'', on_thresholds)) = Inr 10"
    and w: "MolWt demo_rdkit (Some (''on_thresholds'', on_thresholds)) = Inr (Finite 500)"
    and l: "MolLogP demo_rdkit (Some (''on_thresholds'', on_thresholds)) = Inr (Finite 5)"
    by (simp_all add: on_thresholds_def demo_descriptors)
  show ?thesis
    using p d a w l lipinski_trial_thresholds [OF p d a w l]
    by (simp add: demo_str_float str_int_digits)
qed

text \<open>
  C4. For a valid SMILES string, \<^verbatim>\<open>lipinski_trial\<close> returns four outcomes in all, one per
  rule: its passed list and its failed list are the passed and the failed messages of the
  sequence (donors, acceptors, weight, logP), each in that order, and the message of each
  rule contains the measured value of its descriptor.
\<close>

theorem lipinski_trial_four_outcomes:
  assumes "MolFromSmiles rt smiles = Inr (Some m)"
    and "NumHDonors rt (Some m) = Inr d"
    and "NumHAcceptors rt (Some m) = Inr a"
    and "MolWt rt (Some m) = Inr w"
    and "MolLogP rt (Some m) = Inr l"
  shows "\<exists>o1 o2 o3 o4 passed failed.
           spec_rule_outcomes (str_float rt) d a w l = [o1, o2, o3, o4]
           \<and> snd (lipinski_trial rt smiles) = Inr (passed, failed)
           \<and> passed = passed_of [o1, o2, o3, o4]
           \<and> failed = failed_of [o1, o2, o3, o4]
           \<and> length passed + length failed = 4
           \<and> sublist (str_int d) (message o1)
           \<and> sublist (str_int a) (message o2)
           \<and> sublist (str_float rt w) (message o3)
           \<and> sublist (str_float rt l) (message o4)"
proof -
  let ?res = "lipinski_rules (str_float rt) d a w l"
  let ?os = "spec_rule_outcomes (str_float rt) d a w l"
  define o1 where "o1 = (if d > 5 then Failed (''Over 5 H-bond donors, found '' @ str_int d)
      else Passed (''Found '' @ str_int d @ '' H-bond donors''))"
  define o2 where "o2 = (if a > 10 then Failed (''Over 10 H-bond acceptors, found '' @ str_int a)
      else Passed (''Found '' @ str_int a @ '' H-bond acceptors''))"
  define o3 where "o3 = (if float_ge_int w 500
      then Failed (''Molecular weight over 500, calculated '' @ str_float rt w)
      else Passed (''Molecular weight: '' @ str_float rt w))"
  define o4 where "o4 = (if float_ge_int l 5
      then Failed (''Log partition coefficient over 5, calculated '' @ str_float rt l)
      else Passed (''Log partition coefficient: '' @ str_float rt l))"
  have os: "?os = [o1, o2, o3, o4]"
    by (simp add: spec_rule_outcomes_def o1_def o2_def o3_def o4_def)
  have run: "snd (lipinski_trial rt smiles) = Inr (fst ?res, snd ?res)"
    by (simp add: lipinski_trial_valid [OF assms])
  have passed: "fst ?res = passed_of [o1, o2, o3, o4]"
    by (simp add: rules_passed o1_def o2_def o3_def o4_def)
  have failed: "snd ?res = failed_of [o1, o2, o3, o4]"
    by (simp add: rules_failed o1_def o2_def o3_def o4_def)
  have "message o1 = ''Over 5 H-bond donors, found '' @ str_int d @ []
        \<or> message o1 = ''Found '' @ str_int d @ '' H-bond donors''"
    by (simp add: o1_def)
  then have m1: "sublist (str_int d) (message o1)"
    unfolding sublist_def by blast
  have "message o2 = ''Over 10 H-bond acceptors, found '' @ str_int a @ []
        \<or> message o2 = ''Found '' @ str_int a @ '' H-bond acceptors''"
    by (simp add: o2_def)
  then have m2: "sublist (str_int a) (message o2)"
    unfolding sublist_def by blast
  have "message o3 = ''Molecular weight over 500, calculated '' @ str_float rt w @ []
        \<or> message o3 = ''Molecular weight: '' @ str_float rt w @ []"
    by (simp add: o3_def)
  then have m3: "sublist (str_float rt w) (message o3)"
    unfolding sublist_def by blast
  have "message o4 = ''Log partition coefficient over 5, calculated '' @ str_float rt l @ []
        \<or> message o4 = ''Log partition coefficient: '' @ str_float rt l @ []"
    by (simp add: o4_def)
  then have m4: "sublist (str_float rt l) (message o4)"
    unfolding sublist_def by blast
  have four: "length (fst ?res) + length (snd ?res) = 4"
    by (rule rules_four)
  from os run passed failed four m1 m2 m3 m4 show ?thesis by blast
qed

text \<open>The peptide: three failed outcomes and one passed, each with its measured value.\<close>

theorem lipinski_trial_four_outcomes_witness:
  "MolFromSmiles demo_rdkit ''peptide'' = Inr (Some (''peptide'', peptide))
   \<and> NumHDonors demo_rdkit (Some (''peptide'', peptide)) = Inr 6
   \<and> NumHAcceptors demo_rdkit (Some (''peptide'', peptide)) = Inr 12
   \<and> MolWt demo_rdkit (Some (''peptide'', peptide)) = Inr (Finite 1202.635)
   \<and> MolLogP demo_rdkit (Some (''peptide'', peptide)) = Inr (Finite 3.269)
   \<and> spec_rule_outcomes (str_float demo_rdkit) 6 12 (Finite 1202.635) (Finite 3.269)
       = [Failed ''Over 5 H-bond donors, found 6'', Failed ''Over 10 H-bond acceptors, found 12'',
          Failed ''Molecular weight over 500, calculated 1202.635'',
          Passed ''Log partition coefficient: 3.269'']
   \<and> (\<exists>o1 o2 o3 o4 passed failed.
         spec_rule_outcomes (str_float demo_rdkit) 6 12 (Finite 1202.635) (Finite 3.269)
           = [o1, o2, o3, o4]
         \<and> snd (lipinski_trial demo_rdkit ''peptide'') = Inr (passed, failed)
         \<and> passed = passed_of [o1, o2, o3, o4]
         \<and> failed = failed_of [o1, o2, o3, o4]
         \<and> length passed + length failed = 4
         \<and> sublist (str_int 6) (message o1)
         \<and> sublist (str_int 12) (message o2)
         \<and> sublist (str_float demo_rdkit (Finite 1202.635)) (message o3)
         \<and> sublist (str_float demo_rdkit (Finite 3.269)) (message o4))"
proof -
  have p: "MolFromSmiles demo_rdkit ''peptide'' = Inr (Some (''peptide'', peptide))"
    by (rule demo_parse)
  have d: "NumHDonors demo_rdkit (Some (''peptide'', peptide)) = Inr 6"
    and a: "NumHAcceptors demo_rdkit (Some (''peptide'', peptide)) = Inr 12"
    and w: "MolWt demo_rdkit (Some (''peptide'', peptide)) = Inr (Finite 1202.635)"
    and l: "MolLogP demo_rdkit (Some (''peptide'', peptide)) = Inr (Finite 3.269)"
    by (simp_all add: peptide_def demo_descriptors)
  have os: "spec_rule_outcomes (str_float demo_rdkit) 6 12 (Finite 1202.635) (Finite 3.269)
       = [Failed ''Over 5 H-bond donors, found 6'', Failed ''Over 10 H-bond acceptors, found 12'',
          Failed ''Molecular weight over 500, calculated 1202.635'',
          Passed ''Log partition coefficient: 3.269'']"
    by (simp add: spec_rule_outcomes_def str_int_digits demo_rdkit_def table_rdkit_def
        demo_floats_def)
  from p d a w l os lipinski_trial_four_outcomes [OF p d a w l]
  show ?thesis by (intro conjI)
qed

text \<open>
  C5. Whenever \<^verbatim>\<open>lipinski_trial\<close> returns its two lists, \<^verbatim>\<open>lipinski_pass\<close> returns
  true iff the failed list is empty. It makes exactly the calls of \<^verbatim>\<open>lipinski_trial\<close>:
  the parse and then all four descriptors, whichever rules fail, so that all four outcomes
  are computed.
\<close>

theorem lipinski_pass_gate:
  assumes "snd (lipinski_trial rt smiles) = Inr (passed, failed)"
  shows "snd (lipinski_pass rt smiles) = Inr (failed = [])
         \<and> fst (lipinski_pass rt smiles) = fst (lipinski_trial rt smiles)
         \<and> (\<exists>m. fst (lipinski_pass rt smiles) =
                  [Call_MolFromSmiles smiles, Call_NumHDonors (Some m),
                   Call_NumHAcceptors (Some m), Call_MolWt (Some m), Call_MolLogP (Some m)])
         \<and> length passed + length failed = 4"
proof -
  from assms obtain m d a w l where
    p: "MolFromSmiles rt smiles = Inr (Some m)"
    and d: "NumHDonors rt (Some m) = Inr d"
    and a: "NumHAcceptors rt (Some m) = Inr a"
    and w: "MolWt rt (Some m) = Inr w"
    and l: "MolLogP rt (Some m) = Inr l"
    and res: "(passed, failed) = lipinski_rules (str_float rt) d a w l"
    by (rule lipinski_trial_Inr_cases)
  note run = lipinski_trial_valid [OF p d a w l, folded res]
  have gate: "lipinski_pass rt smiles = (fst (lipinski_trial rt smiles), Inr (failed = []))"
    by (simp add: lipinski_pass_def run)
  have calls: "fst (lipinski_trial rt smiles) =
      [Call_MolFromSmiles smiles, Call_NumHDonors (Some m),
       Call_NumHAcceptors (Some m), Call_MolWt (Some m), Call_MolLogP (Some m)]"
    by (simp add: run)
  have four: "length passed + length failed = 4"
    using rules_four [of "str_float rt" d a w l] by (simp add: res [symmetric])
  from gate calls four show ?thesis by simp
qed

text \<open>The peptide fails the first rule already; the other three descriptors are still computed.\<close>

theorem lipinski_pass_gate_witness:
  "snd (lipinski_trial demo_rdkit ''peptide'') =
     Inr ([''Log partition coefficient: 3.269''],
          [''Over 5 H-bond donors, found 6'', ''Over 10 H-bond acceptors, found 12'',
           ''Molecular weight over 500, calculated 1202.635''])
   \<and> snd (lipinski_pass demo_rdkit ''peptide'') = Inr False
   \<and> fst (lipinski_pass demo_rdkit ''peptide'') =
       [Call_MolFromSmiles ''peptide'', Call_NumHDonors (Some (''peptide'', peptide)),
        Call_NumHAcceptors (Some (''peptide'', peptide)), Call_MolWt (Some (''peptide'', peptide)),
        Call_MolLogP (Some (''peptide'', peptide))]"
proof -
  have run: "lipinski_trial demo_rdkit ''peptide'' =
     ([Call_MolFromSmiles ''peptide'', Call_NumHDonors (Some (''peptide'', peptide)),
       Call_NumHAcceptors (Some (''peptide'', peptide)), Call_MolWt (Some (''peptide'', peptide)),
       Call_MolLogP (Some (''peptide'', peptide))],
      Inr ([''Log partition coefficient: 3.269''],
          [''Over 5 H-bond donors, found 6'', ''Over 10 H-bond acceptors, found 12'',
           ''Molecular weight over 500, calculated 1202.635'']))"
    by (simp add: lipinski_trial_def peptide_def lipinski_rules_def str_int_digits
        demo_rdkit_def table_rdkit_def demo_floats_def)
  then have res: "snd (lipinski_trial demo_rdkit ''peptide'') =
     Inr ([''Log partition coefficient: 3.269''],
          [''Over 5 H-bond donors, found 6'', ''Over 10 H-bond acceptors, found 12'',
           ''Molecular weight over 500, calculated 1202.635''])"
    by simp
  show ?thesis
    using res lipinski_pass_gate [OF res] by (simp add: run)
qed

text \<open>
  C6. For a valid SMILES string, \<^verbatim>\<open>log_partition_coefficient\<close> returns the partition
  coefficient that \<^verbatim>\<open>Crippen.MolLogP\<close> reports for the molecule parsed from it; when the
  report is a finite number, so is the result.
\<close>

theorem log_partition_coefficient_valid:
  assumes "MolFromSmiles rt smiles = Inr (Some m)"
    and "MolLogP rt (Some m) = Inr (Finite r)"
  shows "snd (log_partition_coefficient rt smiles) = Inr (Finite r)"
  using assms by (simp add: log_partition_coefficient_def)

theorem log_partition_coefficient_valid_witness:
  "MolFromSmiles demo_rdkit ''CCO'' = Inr (Some (''CCO'', ethanol))
   \<and> MolLogP demo_rdkit (Some (''CCO'', ethanol)) = Inr (Finite (-0.0014))
   \<and> snd (log_partition_coefficient demo_rdkit ''CCO'') = Inr (Finite (-0.0014))"
proof -
  have p: "MolFromSmiles demo_rdkit ''CCO'' = Inr (Some (''CCO'', ethanol))"
    by (rule demo_parse)
  have l: "MolLogP demo_rdkit (Some (''CCO'', ethanol)) = Inr (Finite (-0.0014))"
    by (simp add: ethanol_def demo_descriptors)
  show ?thesis
    using p l log_partition_coefficient_valid [OF p l] by simp
qed

text \<open>
  C7. When \<^verbatim>\<open>lipinski_trial\<close> raises, \<^verbatim>\<open>lipinski_pass\<close> raises the same exception,
  after the same calls: it has no \<^verbatim>\<open>try\<close> of its own and returns nothing.
\<close>

theorem lipinski_pass_propagates:
  assumes "snd (lipinski_trial rt smiles) = Inl e"
  shows "lipinski_pass rt smiles = (fst (lipinski_trial rt smiles), Inl e)"
  using assms by (cases "lipinski_trial rt smiles") (simp add: lipinski_pass_def)

theorem lipinski_pass_propagates_witness:
  "snd (lipinski_trial demo_rdkit ''invalid_smiles_!!!'')
     = Inl (Exception ''invalid_smiles_!!! is not a valid SMILES string'')
   \<and> lipinski_pass demo_rdkit ''invalid_smiles_!!!''
     = ([Call_MolFromSmiles ''invalid_smiles_!!!''],
        Inl (Exception ''invalid_smiles_!!! is not a valid SMILES string''))
   \<and> snd (lipinski_trial raising_rdkit ''CCO'') = Inl (Raised ''ArgumentError'')
   \<and> lipinski_pass raising_rdkit ''CCO''
     = ([Call_MolFromSmiles ''CCO''], Inl (Raised ''ArgumentError''))"
proof -
  have n: "lipinski_trial demo_rdkit ''invalid_smiles_!!!''
     = ([Call_MolFromSmiles ''invalid_smiles_!!!''],
        Inl (Exception ''invalid_smiles_!!! is not a valid SMILES string''))"
    by (simp add: lipinski_trial_None demo_parse)
  have r: "lipinski_trial raising_rdkit ''CCO''
     = ([Call_MolFromSmiles ''CCO''], Inl (Raised ''ArgumentError''))"
    by (simp add: lipinski_trial_raises raising_rdkit_def)
  have n': "snd (lipinski_trial demo_rdkit ''invalid_smiles_!!!'')
     = Inl (Exception ''invalid_smiles_!!! is not a valid SMILES string'')"
    by (simp add: n)
  have r': "snd (lipinski_trial raising_rdkit ''CCO'') = Inl (Raised ''ArgumentError'')"
    by (simp add: r)
  show ?thesis
    using n' r' lipinski_pass_propagates [OF n'] lipinski_pass_propagates [OF r']
    by (simp add: n r)
qed

text \<open>
  C8. No operation returns a partly computed result. A result of \<^verbatim>\<open>lipinski_trial\<close>
  holds all four outcomes, and the parse and the four descriptors all returned; a result of
  \<^verbatim>\<open>lipinski_pass\<close> is the verdict on such a complete result; a result of
  \<^verbatim>\<open>log_partition_coefficient\<close> is the value that \<^verbatim>\<open>Crippen.MolLogP\<close> returned. A
  run that raises has the exception in place of a result, never beside one.
\<close>

theorem no_partial_result:
  "(snd (lipinski_trial rt smiles) = Inr (passed, failed) \<longrightarrow>
      length passed + length failed = 4
      \<and> (\<exists>m d a w l.
            MolFromSmiles rt smiles = Inr (Some m)
            \<and> NumHDonors rt (Some m) = Inr d \<and> NumHAcceptors rt (Some m) = Inr a
            \<and> MolWt rt (Some m) = Inr w \<and> MolLogP rt (Some m) = Inr l
            \<and> (passed, failed) = lipinski_rules (str_float rt) d a w l))
   \<and> (snd (lipinski_pass rt smiles) = Inr b \<longrightarrow>
      (\<exists>passed' failed'.
          snd (lipinski_trial rt smiles) = Inr (passed', failed')
          \<and> length passed' + length failed' = 4 \<and> b = (failed' = [])))
   \<and> (snd (log_partition_coefficient rt smiles) = Inr v \<longrightarrow>
      (\<exists>mol. MolFromSmiles rt smiles = Inr mol \<and> MolLogP rt mol = Inr v))"
proof (intro conjI impI)
  assume run: "snd (lipinski_trial rt smiles) = Inr (passed, failed)"
  then obtain m d a w l where
    p: "MolFromSmiles rt smiles = Inr (Some m)"
    and d: "NumHDonors rt (Some m) = Inr d"
    and a: "NumHAcceptors rt (Some m) = Inr a"
    and w: "MolWt rt (Some m) = Inr w"
    and l: "MolLogP rt (Some m) = Inr l"
    and res: "(passed, failed) = lipinski_rules (str_float rt) d a w l"
    by (rule lipinski_trial_Inr_cases)
  show "length passed + length failed = 4"
    using rules_four [of "str_float rt" d a w l] by (simp add: res [symmetric])
  from p d a w l res
  show "\<exists>m d a w l.
          MolFromSmiles rt smiles = Inr (Some m)
          \<and> NumHDonors rt (Some m) = Inr d \<and> NumHAcceptors rt (Some m) = Inr a
          \<and> MolWt rt (Some m) = Inr w \<and> MolLogP rt (Some m) = Inr l
          \<and> (passed, failed) = lipinski_rules (str_float rt) d a w l"
    by blast
next
  assume gate: "snd (lipinski_pass rt smiles) = Inr b"
  obtain t r where run: "lipinski_trial rt smiles = (t, r)"
    by (cases "lipinski_trial rt smiles")
  from gate run obtain passed' failed' where r: "r = Inr (passed', failed')"
    by (cases r) (auto simp add: lipinski_pass_def)
  from gate run r have b: "b = (failed' = [])"
    by (auto simp add: lipinski_pass_def split: if_splits)
  from run r have res: "snd (lipinski_trial rt smiles) = Inr (passed', failed')"
    by simp
  then obtain m d a w l where "(passed', failed') = lipinski_rules (str_float rt) d a w l"
    by (rule lipinski_trial_Inr_cases)
  then have "length passed' + length failed' = 4"
    using rules_four [of "str_float rt" d a w l] by (simp add: prod_eq_iff)
  with res b
  show "\<exists>passed' failed'.
          snd (lipinski_trial rt smiles) = Inr (passed', failed')
          \<and> length passed' + length failed' = 4 \<and> b = (failed' = [])"
    by blast
next
  assume ret: "snd (log_partition_coefficient rt smiles) = Inr v"
  show "\<exists>mol. MolFromSmiles rt smiles = Inr mol \<and> MolLogP rt mol = Inr v"
  proof (cases "MolFromSmiles rt smiles")
    case (Inl x)
    with ret show ?thesis by (simp add: log_partition_coefficient_raises)
  next
    case (Inr mol)
    with ret have "MolLogP rt mol = Inr v"
      by (cases "MolLogP rt mol") (simp_all add: log_partition_coefficient_returns)
    with Inr show ?thesis by blast
  qed
qed

theorem no_partial_result_witness:
  "snd (lipinski_trial demo_rdkit ''CCO'') =
     Inr ([''Found 1 H-bond donors'', ''Found 1 H-bond acceptors'', ''Molecular weight: 46.069'',
           ''Log partition coefficient: -0.0014''], [])
   \<and> snd (lipinski_pass demo_rdkit ''CCO'') = Inr True
   \<and> snd (log_partition_coefficient demo_rdkit ''CCO'') = Inr (Finite (-0.0014))
   \<and> (\<exists>mol. MolFromSmiles demo_rdkit ''CCO'' = Inr mol
         \<and> MolLogP demo_rdkit mol = Inr (Finite (-0.0014)))
   \<and> (\<exists>passed' failed'.
         snd (lipinski_trial demo_rdkit ''CCO'') = Inr (passed', failed')
         \<and> length passed' + length failed' = 4 \<and> failed' = [])"
proof -
  have trial: "snd (lipinski_trial demo_rdkit ''CCO'') =
     Inr ([''Found 1 H-bond donors'', ''Found 1 H-bond acceptors'', ''Molecular weight: 46.069'',
           ''Log partition coefficient: -0.0014''], [])"
    by (simp add: lipinski_trial_def ethanol_def lipinski_rules_def str_int_digits
        demo_rdkit_def table_rdkit_def demo_floats_def)
  have gate: "snd (lipinski_pass demo_rdkit ''CCO'') = Inr True"
    using trial by (cases "lipinski_trial demo_rdkit ''CCO''") (simp add: lipinski_pass_def)
  have logp: "snd (log_partition_coefficient demo_rdkit ''CCO'') = Inr (Finite (-0.0014))"
    by (simp add: log_partition_coefficient_def ethanol_def demo_rdkit_def table_rdkit_def)
  show ?thesis
    using trial gate logp
      no_partial_result [of demo_rdkit "''CCO''" _ "[]" True "Finite (-0.0014)"]
    by simp
qed

text \<open>
  C10. Two strings whose molecules give the same four descriptor results give the same
  passed and failed lists (or the same exception): beyond the four descriptors, neither the
  text nor the molecule has a part in the result.
\<close>

theorem lipinski_trial_depends_on_descriptors:
  assumes "MolFromSmiles rt smiles = Inr (Some m)"
    and "MolFromSmiles rt smiles' = Inr (Some m')"
    and "NumHDonors rt (Some m) = NumHDonors rt (Some m')"
    and "NumHAcceptors rt (Some m) = NumHAcceptors rt (Some m')"
    and "MolWt rt (Some m) = MolWt rt (Some m')"
    and "MolLogP rt (Some m) = MolLogP rt (Some m')"
  shows "snd (lipinski_trial rt smiles) = snd (lipinski_trial rt smiles')"
  using assms
  by (cases "NumHDonors rt (Some m')"; cases "NumHAcceptors rt (Some m')";
      cases "MolWt rt (Some m')"; cases "MolLogP rt (Some m')")
    (simp_all add: lipinski_trial_def)

theorem lipinski_trial_depends_on_descriptors_witness:
  "MolFromSmiles demo_rdkit ''CCO'' = Inr (Some (''CCO'', ethanol))
   \<and> MolFromSmiles demo_rdkit ''OCC'' = Inr (Some (''OCC'', ethanol))
   \<and> (''CCO'', ethanol) \<noteq> (''OCC'', ethanol)
   \<and> NumHDonors demo_rdkit (Some (''CCO'', ethanol)) = NumHDonors demo_rdkit (Some (''OCC'', ethanol))
   \<and> NumHAcceptors demo_rdkit (Some (''CCO'', ethanol))
       = NumHAcceptors demo_rdkit (Some (''OCC'', ethanol))
   \<and> MolWt demo_rdkit (Some (''CCO'', ethanol)) = MolWt demo_rdkit (Some (''OCC'', ethanol))
   \<and> MolLogP demo_rdkit (Some (''CCO'', ethanol)) = MolLogP demo_rdkit (Some (''OCC'', ethanol))
   \<and> snd (lipinski_trial demo_rdkit ''CCO'') = snd (lipinski_trial demo_rdkit ''OCC'')"
proof -
  have p: "MolFromSmiles demo_rdkit ''CCO'' = Inr (Some (''CCO'', ethanol))"
    and p': "MolFromSmiles demo_rdkit ''OCC'' = Inr (Some (''OCC'', ethanol))"
    by (rule demo_parse)+
  have d: "NumHDonors demo_rdkit (Some (''CCO'', ethanol))
             = NumHDonors demo_rdkit (Some (''OCC'', ethanol))"
    and a: "NumHAcceptors demo_rdkit (Some (''CCO'', ethanol))
             = NumHAcceptors demo_rdkit (Some (''OCC'', ethanol))"
    and w: "MolWt demo_rdkit (Some (''CCO'', ethanol)) = MolWt demo_rdkit (Some (''OCC'', ethanol))"
    and l: "MolLogP demo_rdkit (Some (''CCO'', ethanol)) = MolLogP demo_rdkit (Some (''OCC'', ethanol))"
    by (simp_all add: ethanol_def demo_descriptors)
  from p p' d a w l lipinski_trial_depends_on_descriptors [OF p p' d a w l]
  show ?thesis by simp
qed

text \<open>
  C9. Every run of each of the three operations parses exactly once, and parses its own
  argument; every descriptor call of the run is made on what that parse returned. The
  operations keep nothing between calls: the module has no variable outside its functions,
  and the result of a run, calls included, is determined by the argument, the parse of it
  and the descriptors of the parsed molecule, so that two libraries that agree on these
  give the same run.
\<close>

theorem one_parse_per_call:
  "parses (fst (log_partition_coefficient rt smiles)) = [smiles]
   \<and> parses (fst (lipinski_trial rt smiles)) = [smiles]
   \<and> parses (fst (lipinski_pass rt smiles)) = [smiles]
   \<and> set (described (fst (log_partition_coefficient rt smiles)))
       \<subseteq> {mol. MolFromSmiles rt smiles = Inr mol}
   \<and> set (described (fst (lipinski_trial rt smiles)))
       \<subseteq> {mol. MolFromSmiles rt smiles = Inr mol}
   \<and> set (described (fst (lipinski_pass rt smiles)))
       \<subseteq> {mol. MolFromSmiles rt smiles = Inr mol}
   \<and> (MolFromSmiles rt' smiles = MolFromSmiles rt smiles
       \<and> (\<forall>mol. MolFromSmiles rt smiles = Inr mol \<longrightarrow>
              MolLogP rt' mol = MolLogP rt mol \<and> NumHDonors rt' mol = NumHDonors rt mol
              \<and> NumHAcceptors rt' mol = NumHAcceptors rt mol \<and> MolWt rt' mol = MolWt rt mol)
       \<and> str_float rt' = str_float rt
       \<longrightarrow> log_partition_coefficient rt' smiles = log_partition_coefficient rt smiles
           \<and> lipinski_trial rt' smiles = lipinski_trial rt smiles
           \<and> lipinski_pass rt' smiles = lipinski_pass rt smiles)"
proof -
  have same: "log_partition_coefficient rt' smiles = log_partition_coefficient rt smiles
      \<and> lipinski_trial rt' smiles = lipinski_trial rt smiles
      \<and> lipinski_pass rt' smiles = lipinski_pass rt smiles"
    if p: "MolFromSmiles rt' smiles = MolFromSmiles rt smiles"
      and d: "\<And>mol. MolFromSmiles rt smiles = Inr mol \<Longrightarrow>
              MolLogP rt' mol = MolLogP rt mol \<and> NumHDonors rt' mol = NumHDonors rt mol
              \<and> NumHAcceptors rt' mol = NumHAcceptors rt mol \<and> MolWt rt' mol = MolWt rt mol"
      and f: "str_float rt' = str_float rt"
  proof -
    have logp: "log_partition_coefficient rt' smiles = log_partition_coefficient rt smiles"
    proof (cases "MolFromSmiles rt smiles")
      case (Inl x)
      with p show ?thesis by (simp add: log_partition_coefficient_raises)
    next
      case (Inr mol)
      with p d [OF Inr] show ?thesis by (simp add: log_partition_coefficient_returns)
    qed
    have trial: "lipinski_trial rt' smiles = lipinski_trial rt smiles"
    proof (cases "MolFromSmiles rt smiles")
      case (Inl x)
      with p show ?thesis by (simp add: lipinski_trial_raises)
    next
      case (Inr mol)
      with p d [OF Inr] f show ?thesis by (simp add: lipinski_trial_def)
    qed
    from logp trial show ?thesis by (simp add: lipinski_pass_def)
  qed
  from same log_partition_coefficient_calls [of rt smiles] lipinski_trial_calls [of rt smiles]
  show ?thesis by (simp add: lipinski_pass_calls)
qed

text \<open>
  Two libraries that differ on another string run alike on \<^verbatim>\<open>CCO\<close>.
\<close>

theorem one_parse_per_call_witness:
  "MolFromSmiles small_rdkit ''CCO'' = MolFromSmiles demo_rdkit ''CCO''
   \<and> MolFromSmiles small_rdkit ''OCC'' \<noteq> MolFromSmiles demo_rdkit ''OCC''
   \<and> MolLogP small_rdkit = MolLogP demo_rdkit \<and> NumHDonors small_rdkit = NumHDonors demo_rdkit
   \<and> NumHAcceptors small_rdkit = NumHAcceptors demo_rdkit \<and> MolWt small_rdkit = MolWt demo_rdkit
   \<and> str_float small_rdkit = str_float demo_rdkit
   \<and> parses (fst (log_partition_coefficient demo_rdkit ''CCO'')) = [''CCO'']
   \<and> parses (fst (lipinski_trial demo_rdkit ''CCO'')) = [''CCO'']
   \<and> parses (fst (lipinski_pass demo_rdkit ''CCO'')) = [''CCO'']
   \<and> log_partition_coefficient small_rdkit ''CCO'' = log_partition_coefficient demo_rdkit ''CCO''
   \<and> lipinski_trial small_rdkit ''CCO'' = lipinski_trial demo_rdkit ''CCO''
   \<and> lipinski_pass small_rdkit ''CCO'' = lipinski_pass demo_rdkit ''CCO''"
proof -
  have p: "MolFromSmiles small_rdkit ''CCO'' = MolFromSmiles demo_rdkit ''CCO''"
    by (simp add: demo_parse)
  have q: "MolFromSmiles small_rdkit ''OCC'' \<noteq> MolFromSmiles demo_rdkit ''OCC''"
    by (simp add: demo_rdkit_def small_rdkit_def table_rdkit_def)
  note d = small_descriptors
  show ?thesis
    using p q d one_parse_per_call [of demo_rdkit "''CCO''" small_rdkit]
    by simp
qed

end
